theory Spec2Isabelle
  imports Complex_Main "HOL-Library.Word"
begin

unbundle bit_operations_syntax

section \<open>Logistic regression aggregates and the Student-t distribution function\<close>

text \<open>
  A shallow embedding of \<open>src/modules/regress/logistic.cpp\<close> (the conjugate-gradient and
  the iteratively-reweighted-least-squares aggregates) and of
  \<open>src/modules/prob/student.cpp\<close> (the Student-t distribution function).

  Conventions of the embedding.
  \<^item> A C++ \<open>double\<close> is a \<open>real\<close>: arithmetic is exact, there is no rounding, no
    infinity and no NaN. The one place where the source returns \<open>NAN\<close> on purpose
    (\<open>studentT_cdf\<close>) is an \<open>option\<close>. A quotient of doubles whose divisor can be zero
    is \<open>double_div\<close>, which leaves the result at a zero divisor open.
  \<^item> A \<open>State\<close> object presents one array of doubles (\<open>mStorage\<close>) as named scalars,
    vectors and a matrix. The record below has one field per public member of the class,
    with the member's name, and \<open>mStorage_size\<close> for the length of the array. The members
    read through \<open>Reference\<close> with an unsigned integer type are counters and are natural numbers here.
  \<^item> A vector is a list of reals. The views \<open>coef\<close>, \<open>dir\<close>, \<open>grad\<close>, \<open>gradNew\<close> are
    constructed with \<open>widthOfX\<close> elements each; \<open>CG_layout\<close> and \<open>IRLS_layout\<close> say so.
  \<^item> An exception is a value of type \<open>error\<close> on the left of a sum.
\<close>

subsection \<open>Vectors and matrices (the Armadillo operations the source uses)\<close>

type_synonym vec = "real list"
type_synonym mat = "real list list"

definition zeros :: "nat \<Rightarrow> vec" where
  "zeros n = replicate n 0"

definition dot :: "vec \<Rightarrow> vec \<Rightarrow> real" where
  "dot a b = sum_list (map2 (\<lambda>u v. u * v) a b)"

definition plus_vec :: "vec \<Rightarrow> vec \<Rightarrow> vec" where
  "plus_vec a b = map2 (\<lambda>u v. u + v) a b"

definition minus_vec :: "vec \<Rightarrow> vec \<Rightarrow> vec" where
  "minus_vec a b = map2 (\<lambda>u v. u - v) a b"

definition times_scalar :: "real \<Rightarrow> vec \<Rightarrow> vec" where
  "times_scalar c a = map (\<lambda>v. c * v) a"

definition plus_mat :: "mat \<Rightarrow> mat \<Rightarrow> mat" where
  "plus_mat A B = map2 plus_vec A B"


definition zeros_mat :: "nat \<Rightarrow> nat \<Rightarrow> mat" where
  "zeros_mat m n = replicate m (zeros n)"

datatype error =
    Incompatible_transition_states  \<comment> \<open>\<open>std::logic_error\<close> thrown by \<open>operator+=\<close>\<close>
  | Incompatible_dimensions         \<comment> \<open>Armadillo's check of the operands of a product or sum\<close>
  | Pseudo_inverse_failed           \<comment> \<open>the exception that Armadillo's \<open>pinv\<close> can throw\<close>
  | Undefined_degree_of_freedom     \<comment> \<open>\<open>std::domain_error\<close> thrown by \<open>student_t_cdf\<close>\<close>

text \<open>The logistic function \<open>sigma\<close>.\<close>

definition sigma :: "real \<Rightarrow> real" where
  "sigma x = 1 / (1 + exp (- x))"

text \<open>
  The quotients of \<open>LogisticRegressionCG::final\<close> divide by a number that can be zero. The
  double quotient is then an infinity or a NaN, and so is everything computed from it; no
  real number stands for that. \<open>double_div\<close> takes the value to put in its place as its
  first argument \<open>nf\<close>: what is proved below holds for every \<open>nf\<close>, and says nothing of a
  field computed from a quotient with divisor zero.
\<close>

definition double_div :: "real \<Rightarrow> real \<Rightarrow> real \<Rightarrow> real" where
  "double_div nf a b = (if b = 0 then nf else a / b)"

subsection \<open>The conjugate-gradient state\<close>

record CG_State =
  mStorage_size :: nat
  iteration :: nat
  widthOfX :: nat
  coef :: vec
  dir :: vec
  grad :: vec
  beta :: real
  numRows :: nat
  gradNew :: vec
  dTHd :: real
  logLikelihood :: real

definition CG_arraySize :: "nat \<Rightarrow> nat" where
  "CG_arraySize inWidthOfX = 6 + 4 * inWidthOfX"

text \<open>The constructor's views: each vector has \<open>widthOfX\<close> elements inside the array.\<close>

definition CG_layout :: "CG_State \<Rightarrow> bool" where
  "CG_layout s =
     (CG_arraySize (widthOfX s) \<le> mStorage_size s \<and>
      length (coef s) = widthOfX s \<and> length (dir s) = widthOfX s \<and>
      length (grad s) = widthOfX s \<and> length (gradNew s) = widthOfX s)"

definition CG_reset :: "CG_State \<Rightarrow> CG_State" where
  "CG_reset s =
     s\<lparr> numRows := 0, dTHd := 0, gradNew := zeros (length (gradNew s)),
        logLikelihood := 0 \<rparr>"

text \<open>
  \<open>initialize\<close> allocates a fresh array of \<open>arraySize(inWidthOfX)\<close> doubles and sets every
  field; \<open>inWidthOfX\<close> is a \<open>uint16_t\<close>, so the caller's \<open>x.n_elem\<close> is reduced modulo
  \<open>2 ^ 16\<close> on the way in.
\<close>

definition CG_initialize :: "nat \<Rightarrow> CG_State" where
  "CG_initialize n_elem =
     (let inWidthOfX = n_elem mod 2 ^ 16 in
      CG_reset
        \<lparr> mStorage_size = CG_arraySize inWidthOfX, iteration = 0, widthOfX = inWidthOfX,
          coef = zeros inWidthOfX, dir = zeros inWidthOfX, grad = zeros inWidthOfX,
          beta = 0, numRows = 0, gradNew = zeros inWidthOfX, dTHd = 0,
          logLikelihood = 0 \<rparr>)"

text \<open>\<open>State::operator+=\<close>: the check, then the four intra-iteration fields are added.\<close>

definition CG_plus_eq :: "CG_State \<Rightarrow> CG_State \<Rightarrow> error + CG_State" where
  "CG_plus_eq s inOtherState =
     (if mStorage_size s \<noteq> mStorage_size inOtherState \<or> widthOfX s \<noteq> widthOfX inOtherState
      then Inl Incompatible_transition_states
      else Inr (s\<lparr> numRows := numRows s + numRows inOtherState,
                   gradNew := plus_vec (gradNew s) (gradNew inOtherState),
                   dTHd := dTHd s + dTHd inOtherState,
                   logLikelihood := logLikelihood s + logLikelihood inOtherState \<rparr>))"

text \<open>
  The part of \<open>transition\<close> after "Now do the transition step". Armadillo checks that the
  row \<open>x\<close> has as many elements as the column it is multiplied with, which has \<open>widthOfX\<close>.
\<close>

definition CG_step :: "CG_State \<Rightarrow> real \<Rightarrow> vec \<Rightarrow> error + CG_State" where
  "CG_step state0 y x =
     (if length x \<noteq> widthOfX state0 then Inl Incompatible_dimensions
      else
        let state = state0\<lparr> numRows := numRows state0 + 1 \<rparr>;
            xc = dot x (coef state);
            xd = dot x (dir state);
            state = (if iteration state mod 2 = 0
                     then state\<lparr> gradNew :=
                            plus_vec (gradNew state) (times_scalar (sigma (- y * xc) * y) x) \<rparr>
                     else state\<lparr> dTHd := dTHd state - sigma xc * sigma (- xc) * xd * xd \<rparr>)
        in Inr (state\<lparr> logLikelihood := logLikelihood state - ln (1 + exp (- y * xc)) \<rparr>))"

text \<open>
  The first-row branch of \<open>transition\<close> (\<open>if (state.numRows == 0) ...\<close>): the state is
  initialised from the length of \<open>x\<close> and, when a previous state is given, replaced by a
  copy of it with the intra-iteration fields reset. (The copy goes element by element
  into the array just allocated for \<open>x\<close>, so it needs a previous state of that length; here
  a previous state of another width is refused by the step's check of the dimensions.)
\<close>

definition CG_first_row :: "CG_State \<Rightarrow> vec \<Rightarrow> CG_State option \<Rightarrow> CG_State" where
  "CG_first_row state x previousState =
     (if numRows state = 0
      then (case previousState of
              None \<Rightarrow> CG_initialize (length x)
            | Some p \<Rightarrow> CG_reset p)
      else state)"

text \<open>
  \<open>transition\<close>: the label becomes \<open>y\<close>, then the first-row branch, then the step. The
  source reads \<open>double y = *arg++ ? 1. : -1.\<close>; \<open>label\<close> is the truth value that the
  conditional tests. (How an argument that is not a boolean becomes one is decided by
  \<open>AnyValue\<close>, which is not among the sources.)
\<close>

definition CG_transition ::
  "CG_State \<Rightarrow> bool \<Rightarrow> vec \<Rightarrow> CG_State option \<Rightarrow> error + CG_State" where
  "CG_transition state0 label x previousState =
     (let y = (if label then 1 else - 1);
          state = CG_first_row state0 x previousState
      in CG_step state y x)"

definition CG_mergeStates :: "CG_State \<Rightarrow> CG_State \<Rightarrow> error + CG_State" where
  "CG_mergeStates stateLeft stateRight =
     (if numRows stateLeft = 0 then Inr stateRight
      else if numRows stateRight = 0 then Inr stateLeft
      else CG_plus_eq stateLeft stateRight)"

definition CG_final :: "real \<Rightarrow> CG_State \<Rightarrow> CG_State" where
  "CG_final nf state0 =
     (let state =
        (if iteration state0 = 0
         then state0\<lparr> dir := gradNew state0, grad := gradNew state0 \<rparr>
         else if iteration state0 mod 2 = 0
         then
           let gradNewMinusGrad = minus_vec (gradNew state0) (grad state0);
               b = double_div nf (dot (gradNew state0) gradNewMinusGrad)
                     (dot (dir state0) gradNewMinusGrad)
           in state0\<lparr> beta := b,
                      dir := minus_vec (gradNew state0) (times_scalar b (dir state0)),
                      grad := gradNew state0 \<rparr>
         else state0\<lparr> coef :=
                minus_vec (coef state0)
                  (times_scalar (double_div nf (dot (grad state0) (dir state0)) (dTHd state0))
                     (dir state0)) \<rparr>)
      in state\<lparr> iteration := iteration state + 1 \<rparr>)"

definition CG_distance :: "CG_State \<Rightarrow> CG_State \<Rightarrow> real" where
  "CG_distance stateLeft stateRight = \<bar>logLikelihood stateLeft - logLikelihood stateRight\<bar>"

subsection \<open>The iteratively-reweighted-least-squares state\<close>

text \<open>
  The members that the two \<open>State\<close> classes share by name carry the suffix \<open>_irls\<close> here.
  \<open>X_transp_AX\<close> is a list of \<open>widthOfX\<close> lists of \<open>widthOfX\<close> reals.
\<close>

record IRLS_State =
  mStorage_size_irls :: nat
  widthOfX_irls :: nat
  coef_irls :: vec
  numRows_irls :: nat
  X_transp_Az :: vec
  X_transp_AX :: mat
  logLikelihood_irls :: real

text \<open>
  \<open>arraySize\<close> computes \<open>3 + inWidthOfX * inWidthOfX + 2 * inWidthOfX\<close> in \<open>int\<close> and
  returns it as a \<open>uint32_t\<close>. From \<open>inWidthOfX = 46340\<close> on the sum passes \<open>2 ^ 31 - 1\<close>,
  which C++ leaves undefined; the value here is the one of a build where \<open>int\<close> wraps, the
  sum modulo \<open>2 ^ 32\<close>. It is the sum itself up to \<open>inWidthOfX = 65534\<close> and 2 at 65535.
  The views of a state of width \<open>w\<close> reach up to index \<open>2 + w * w + 2 * w\<close> of the array.
\<close>

definition IRLS_arraySize :: "nat \<Rightarrow> nat" where
  "IRLS_arraySize inWidthOfX = (3 + inWidthOfX * inWidthOfX + 2 * inWidthOfX) mod 2 ^ 32"

definition IRLS_layout :: "IRLS_State \<Rightarrow> bool" where
  "IRLS_layout s =
     (3 + widthOfX_irls s * widthOfX_irls s + 2 * widthOfX_irls s \<le> mStorage_size_irls s \<and>
      length (coef_irls s) = widthOfX_irls s \<and>
      length (X_transp_Az s) = widthOfX_irls s \<and>
      length (X_transp_AX s) = widthOfX_irls s \<and>
      list_all (\<lambda>r. length r = widthOfX_irls s) (X_transp_AX s))"

definition IRLS_reset :: "IRLS_State \<Rightarrow> IRLS_State" where
  "IRLS_reset s =
     s\<lparr> numRows_irls := 0, X_transp_Az := zeros (length (X_transp_Az s)),
        X_transp_AX := map (\<lambda>r. zeros (length r)) (X_transp_AX s),
        logLikelihood_irls := 0 \<rparr>"

definition IRLS_initialize :: "nat \<Rightarrow> IRLS_State" where
  "IRLS_initialize n_elem =
     (let inWidthOfX = n_elem mod 2 ^ 16 in
      IRLS_reset
        \<lparr> mStorage_size_irls = IRLS_arraySize inWidthOfX, widthOfX_irls = inWidthOfX,
          coef_irls = zeros inWidthOfX, numRows_irls = 0, X_transp_Az = zeros inWidthOfX,
          X_transp_AX = zeros_mat inWidthOfX inWidthOfX, logLikelihood_irls = 0 \<rparr>)"

definition IRLS_plus_eq :: "IRLS_State \<Rightarrow> IRLS_State \<Rightarrow> error + IRLS_State" where
  "IRLS_plus_eq s inOtherState =
     (if mStorage_size_irls s \<noteq> mStorage_size_irls inOtherState \<or>
         widthOfX_irls s \<noteq> widthOfX_irls inOtherState
      then Inl Incompatible_transition_states
      else Inr (s\<lparr> numRows_irls := numRows_irls s + numRows_irls inOtherState,
                   X_transp_Az := plus_vec (X_transp_Az s) (X_transp_Az inOtherState),
                   X_transp_AX := plus_mat (X_transp_AX s) (X_transp_AX inOtherState),
                   logLikelihood_irls :=
                     logLikelihood_irls s + logLikelihood_irls inOtherState \<rparr>))"

definition IRLS_step :: "IRLS_State \<Rightarrow> real \<Rightarrow> vec \<Rightarrow> error + IRLS_State" where
  "IRLS_step state0 y x =
     (if length x \<noteq> widthOfX_irls state0 then Inl Incompatible_dimensions
      else
        let state = state0\<lparr> numRows_irls := numRows_irls state0 + 1 \<rparr>;
            xc = dot x (coef_irls state);
            a = sigma xc * sigma (- xc);
            z = xc + sigma (- y * xc) * y / a
        in Inr (state\<lparr> X_transp_Az := plus_vec (X_transp_Az state) (map (\<lambda>u. u * a * z) x),
                       X_transp_AX :=
                         plus_mat (X_transp_AX state) (map (\<lambda>u. map (\<lambda>v. u * a * v) x) x),
                       logLikelihood_irls :=
                         logLikelihood_irls state - ln (1 + exp (- y * xc)) \<rparr>))"

definition IRLS_first_row :: "IRLS_State \<Rightarrow> vec \<Rightarrow> IRLS_State option \<Rightarrow> IRLS_State" where
  "IRLS_first_row state x previousState =
     (if numRows_irls state = 0
      then (case previousState of
              None \<Rightarrow> IRLS_initialize (length x)
            | Some p \<Rightarrow> IRLS_reset p)
      else state)"

definition IRLS_transition ::
  "IRLS_State \<Rightarrow> bool \<Rightarrow> vec \<Rightarrow> IRLS_State option \<Rightarrow> error + IRLS_State" where
  "IRLS_transition state0 label x previousState =
     (let y = (if label then 1 else - 1);
          state = IRLS_first_row state0 x previousState
      in IRLS_step state y x)"

definition IRLS_mergeStates :: "IRLS_State \<Rightarrow> IRLS_State \<Rightarrow> error + IRLS_State" where
  "IRLS_mergeStates stateLeft stateRight =
     (if numRows_irls stateLeft = 0 then Inr stateRight
      else if numRows_irls stateRight = 0 then Inr stateLeft
      else IRLS_plus_eq stateLeft stateRight)"


subsection \<open>The Student-t distribution function\<close>

text \<open>
  The error function comes from Boost; it is the parameter \<open>erf\<close> of every function that
  reaches it. \<open>nu\<close> is an \<open>int64_t\<close>: the source compares it with constants, converts it to
  \<open>double\<close> and multiplies \<open>nu - 1\<close> with itself only where \<open>nu < 1000000\<close>, so it is an
  \<open>int\<close> here. The two loops run \<open>j\<close> over the even numbers from 2; \<open>prd\<close> and \<open>sm\<close> are
  the source's \<open>prod\<close> and \<open>sum\<close>.
\<close>

definition normal_cdf :: "(real \<Rightarrow> real) \<Rightarrow> real \<Rightarrow> real" where
  "normal_cdf erf t = 0.5 + 0.5 * erf (t / sqrt 2)"

definition studentT_cdf_approx :: "(real \<Rightarrow> real) \<Rightarrow> int \<Rightarrow> real \<Rightarrow> real" where
  "studentT_cdf_approx erf nu t =
     (let g = (real_of_int nu - 1.5) / real_of_int ((nu - 1) * (nu - 1));
          z = sqrt (ln (1 + t * t / real_of_int nu) / g);
          z = (if t < 0 then z * (- 1) else z)
      in normal_cdf erf z)"

function odd_nu_loop :: "int \<Rightarrow> real \<Rightarrow> int \<Rightarrow> real \<Rightarrow> real \<Rightarrow> real" where
  "odd_nu_loop nu z j prd sm =
     (if j \<le> nu - 3
      then let prd = prd * real_of_int j / (real_of_int (j + 1) * z);
               sm = sm + prd
           in odd_nu_loop nu z (j + 2) prd sm
      else sm)"
  by pat_completeness auto
termination
  by (relation "measure (\<lambda>(nu, z, j, prd, sm). nat (nu - 1 - j))") auto

declare odd_nu_loop.simps [simp del]

function even_nu_loop :: "int \<Rightarrow> real \<Rightarrow> int \<Rightarrow> real \<Rightarrow> real \<Rightarrow> real" where
  "even_nu_loop nu z j prd sm =
     (if j \<le> nu - 2
      then let prd = prd * real_of_int (j - 1) / (real_of_int j * z);
               sm = sm + prd
           in even_nu_loop nu z (j + 2) prd sm
      else sm)"
  by pat_completeness auto
termination
  by (relation "measure (\<lambda>(nu, z, j, prd, sm). nat (nu - j))") auto

declare even_nu_loop.simps [simp del]

definition studentT_cdf :: "(real \<Rightarrow> real) \<Rightarrow> int \<Rightarrow> real \<Rightarrow> real option" where
  "studentT_cdf erf nu t =
     (if nu \<le> 0 then None
      else if nu \<ge> 1000000 then Some (normal_cdf erf t)
      else if nu \<ge> 200 then Some (studentT_cdf_approx erf nu t)
      else
        let z = 1 + t * t / real_of_int nu;
            t_by_sqrt_nu = \<bar>t\<bar> / sqrt (real_of_int nu);
            A = (if nu = 1 then 2 / pi * arctan t_by_sqrt_nu
                 else if nu AND 1 \<noteq> 0
                 then 2 / pi * (arctan t_by_sqrt_nu + t_by_sqrt_nu / z * odd_nu_loop nu z 2 1 1)
                 else t_by_sqrt_nu / sqrt z * even_nu_loop nu z 2 1 1);
            A = (if A > 1 then 1 else if A < 0 then 0 else A)
        in Some (if t < 0 then 0.5 * (1 - A) else 1 - 0.5 * (1 - A)))"

text \<open>The database function: the domain check, then \<open>studentT_cdf\<close>.\<close>

definition student_t_cdf :: "(real \<Rightarrow> real) \<Rightarrow> int \<Rightarrow> real \<Rightarrow> error + real option" where
  "student_t_cdf erf nu t =
     (if nu \<le> 0 then Inl Undefined_degree_of_freedom else Inr (studentT_cdf erf nu t))"

subsection \<open>Predicates and sample states used in the statements\<close>

text \<open>
  Two accumulators belong to the same fit and iteration when their arrays have the same
  length and their inter-iteration fields agree. An accumulator that has seen no row
  carries no data when its other intra-iteration fields are zero as well.
\<close>

definition CG_same_fit :: "CG_State \<Rightarrow> CG_State \<Rightarrow> bool" where
  "CG_same_fit a b =
     (mStorage_size a = mStorage_size b \<and> widthOfX a = widthOfX b \<and>
      iteration a = iteration b \<and> coef a = coef b \<and> dir a = dir b \<and>
      grad a = grad b \<and> beta a = beta b)"

definition CG_empty_is_zero :: "CG_State \<Rightarrow> bool" where
  "CG_empty_is_zero a =
     (if numRows a = 0
      then gradNew a = zeros (widthOfX a) \<and> dTHd a = 0 \<and> logLikelihood a = 0
      else True)"

definition IRLS_same_fit :: "IRLS_State \<Rightarrow> IRLS_State \<Rightarrow> bool" where
  "IRLS_same_fit a b =
     (mStorage_size_irls a = mStorage_size_irls b \<and> widthOfX_irls a = widthOfX_irls b \<and>
      coef_irls a = coef_irls b)"

definition IRLS_empty_is_zero :: "IRLS_State \<Rightarrow> bool" where
  "IRLS_empty_is_zero a =
     (if numRows_irls a = 0
      then X_transp_Az a = zeros (widthOfX_irls a) \<and>
           X_transp_AX a = zeros_mat (widthOfX_irls a) (widthOfX_irls a) \<and>
           logLikelihood_irls a = 0
      else True)"

definition CG_sample :: "nat \<Rightarrow> nat \<Rightarrow> CG_State" where
  "CG_sample it rows =
     \<lparr> mStorage_size = 14, iteration = it, widthOfX = 2, coef = [1, 2], dir = [1, 0],
       grad = [1, 1], beta = 0, numRows = rows, gradNew = [3, 1], dTHd = - 2,
       logLikelihood = - 1 \<rparr>"

definition IRLS_sample :: "nat \<Rightarrow> IRLS_State" where
  "IRLS_sample rows =
     \<lparr> mStorage_size_irls = 11, widthOfX_irls = 2, coef_irls = [1, 2], numRows_irls = rows,
       X_transp_Az = [1, 1], X_transp_AX = [[1, 0], [0, 1]], logLikelihood_irls = - 1 \<rparr>"

text \<open>
  The pseudo-inverse of a matrix with one row and one column: the inverse of its entry,
  and zero for the entry zero. It stands for \<open>pinv\<close> where a statement is evaluated on a
  model with one feature.
\<close>

definition pinv_1x1 :: "mat \<Rightarrow> error + mat" where
  "pinv_1x1 M =
     (case M of
        [[a]] \<Rightarrow> Inr [[if a = 0 then 0 else 1 / a]]
      | _ \<Rightarrow> Inl Pseudo_inverse_failed)"


section \<open>Properties\<close>

subsection \<open>Vector operations, index by index\<close>

lemma dot_sum: "length a = length b \<Longrightarrow> dot a b = (\<Sum>i<length a. a ! i * b ! i)"
proof -
  assume l: "length a = length b"
  have "dot a b = sum_list (map (\<lambda>i. a ! i * b ! i) [0..<length a])"
    unfolding dot_def using l
    by (intro arg_cong[where f=sum_list] nth_equalityI) simp_all
  also have "\<dots> = (\<Sum>i<length a. a ! i * b ! i)"
    by (simp add: interv_sum_list_conv_sum_set_nat atLeast0LessThan)
  finally show ?thesis .
qed

lemma length_plus_vec: "length (plus_vec a b) = min (length a) (length b)"
  by (simp add: plus_vec_def)

lemma length_minus_vec: "length (minus_vec a b) = min (length a) (length b)"
  by (simp add: minus_vec_def)

lemma length_times_scalar: "length (times_scalar c a) = length a"
  by (simp add: times_scalar_def)

lemma nth_plus_vec: "i < length a \<Longrightarrow> i < length b \<Longrightarrow> plus_vec a b ! i = a ! i + b ! i"
  by (simp add: plus_vec_def)

lemma nth_minus_vec: "i < length a \<Longrightarrow> i < length b \<Longrightarrow> minus_vec a b ! i = a ! i - b ! i"
  by (simp add: minus_vec_def)

lemma nth_times_scalar: "i < length a \<Longrightarrow> times_scalar c a ! i = c * a ! i"
  by (simp add: times_scalar_def)

lemma plus_vec_commute: "plus_vec a b = plus_vec b a"
proof (induction a arbitrary: b)
  case Nil
  then show ?case by (simp add: plus_vec_def)
next
  case (Cons u a)
  then show ?case by (cases b) (simp_all add: plus_vec_def)
qed

lemma plus_vec_assoc: "plus_vec (plus_vec a b) c = plus_vec a (plus_vec b c)"
proof (induction a arbitrary: b c)
  case Nil
  then show ?case by (simp add: plus_vec_def)
next
  case (Cons u a)
  show ?case
  proof (cases b)
    case Nil
    then show ?thesis by (simp add: plus_vec_def)
  next
    case bc: (Cons v b')
    show ?thesis
    proof (cases c)
      case Nil
      then show ?thesis by (simp add: plus_vec_def)
    next
      case (Cons w c')
      with bc Cons.IH [of b' c'] show ?thesis by (simp add: plus_vec_def)
    qed
  qed
qed

lemma plus_mat_commute: "plus_mat A B = plus_mat B A"
proof (induction A arbitrary: B)
  case Nil
  then show ?case by (simp add: plus_mat_def)
next
  case (Cons u A)
  then show ?case by (cases B) (simp_all add: plus_mat_def plus_vec_commute)
qed

lemma plus_mat_assoc: "plus_mat (plus_mat A B) C = plus_mat A (plus_mat B C)"
proof (induction A arbitrary: B C)
  case Nil
  then show ?case by (simp add: plus_mat_def)
next
  case (Cons u A)
  show ?case
  proof (cases B)
    case Nil
    then show ?thesis by (simp add: plus_mat_def)
  next
    case bc: (Cons v B')
    show ?thesis
    proof (cases C)
      case Nil
      then show ?thesis by (simp add: plus_mat_def)
    next
      case (Cons w C')
      with bc Cons.IH [of B' C'] show ?thesis by (simp add: plus_mat_def plus_vec_assoc)
    qed
  qed
qed

lemma nth_plus_mat:
  "i < length A \<Longrightarrow> i < length B \<Longrightarrow> plus_mat A B ! i = plus_vec (A ! i) (B ! i)"
  by (simp add: plus_mat_def)

lemma length_plus_mat: "length (plus_mat A B) = min (length A) (length B)"
  by (simp add: plus_mat_def)



subsection \<open>The logistic function\<close>

text \<open>
  The source notes that \<open>1 - sigma x = sigma (- x)\<close>. Over the reals \<open>sigma\<close> is positive,
  so the weight \<open>a = sigma xc * sigma (- xc)\<close> by which the IRLS step divides is never zero.
\<close>

lemma sigma_pos: "0 < sigma x"
  by (simp add: sigma_def add_pos_pos)

lemma sigma_minus: "sigma (- x) = 1 - sigma x"
proof -
  have p: "1 + exp x \<noteq> 0" using exp_gt_zero [of x] by linarith
  have "sigma (- x) = 1 / (1 + exp x)" by (simp add: sigma_def)
  moreover have "sigma x = exp x / (1 + exp x)"
    using exp_gt_zero [of x] by (simp add: sigma_def exp_minus field_simps)
  moreover have "1 / (1 + exp x) = 1 - exp x / (1 + exp x)"
    using p by (simp add: field_simps)
  ultimately show ?thesis by simp
qed

subsection \<open>What the operations keep\<close>

text \<open>
  The layout of the views, and the property that a state without rows has no data in its
  intra-iteration fields, hold of the initial state and are kept by every operation.
\<close>

lemma CG_layout_initialize: "CG_layout (CG_initialize n)"
  by (simp add: CG_layout_def CG_initialize_def CG_reset_def zeros_def Let_def)

lemma CG_layout_reset: "CG_layout p \<Longrightarrow> CG_layout (CG_reset p)"
  by (simp add: CG_layout_def CG_reset_def zeros_def)

lemma CG_layout_step: "CG_layout s \<Longrightarrow> CG_step s y x = Inr s' \<Longrightarrow> CG_layout s'"
  by (auto simp add: CG_layout_def CG_step_def Let_def length_plus_vec length_times_scalar
      split: if_splits)

lemma CG_layout_mergeStates:
  "CG_layout a \<Longrightarrow> CG_layout b \<Longrightarrow> CG_mergeStates a b = Inr c \<Longrightarrow> CG_layout c"
  by (auto simp add: CG_layout_def CG_mergeStates_def CG_plus_eq_def length_plus_vec
      split: if_splits)

lemma CG_layout_final: "CG_layout s \<Longrightarrow> CG_layout (CG_final nf s)"
  by (simp add: CG_layout_def CG_final_def Let_def length_minus_vec length_times_scalar)

lemma CG_empty_is_zero_initialize: "CG_empty_is_zero (CG_initialize n)"
  by (simp add: CG_empty_is_zero_def CG_initialize_def CG_reset_def zeros_def Let_def)

lemma CG_empty_is_zero_reset: "CG_layout p \<Longrightarrow> CG_empty_is_zero (CG_reset p)"
  by (simp add: CG_layout_def CG_empty_is_zero_def CG_reset_def)

lemma CG_empty_is_zero_step: "CG_step s y x = Inr s' \<Longrightarrow> CG_empty_is_zero s'"
  by (auto simp add: CG_empty_is_zero_def CG_step_def Let_def split: if_splits)

lemma CG_empty_is_zero_mergeStates:
  "CG_empty_is_zero a \<Longrightarrow> CG_empty_is_zero b \<Longrightarrow> CG_mergeStates a b = Inr c \<Longrightarrow>
   CG_empty_is_zero c"
  by (auto simp add: CG_empty_is_zero_def CG_mergeStates_def CG_plus_eq_def split: if_splits)

lemma CG_empty_is_zero_final:
  "CG_empty_is_zero s \<Longrightarrow> CG_empty_is_zero (CG_final nf s)"
  by (simp add: CG_empty_is_zero_def CG_final_def Let_def split: if_splits)

lemma IRLS_arraySize_small:
  assumes "w < 65535"
  shows "IRLS_arraySize w = 3 + w * w + 2 * w"
proof -
  from assms have w: "w \<le> 65534" by simp
  from mult_le_mono [OF w w] have "w * w \<le> 65534 * 65534" .
  with w have "3 + w * w + 2 * w < 2 ^ 32" by simp
  then show ?thesis by (simp add: IRLS_arraySize_def)
qed

lemma IRLS_layout_initialize: "n mod 2 ^ 16 < 65535 \<Longrightarrow> IRLS_layout (IRLS_initialize n)"
  by (simp add: IRLS_layout_def IRLS_initialize_def IRLS_reset_def zeros_def zeros_mat_def
      Let_def list_all_length IRLS_arraySize_small)

lemma IRLS_layout_reset: "IRLS_layout p \<Longrightarrow> IRLS_layout (IRLS_reset p)"
  by (simp add: IRLS_layout_def IRLS_reset_def zeros_def list_all_length)

lemma IRLS_empty_is_zero_initialize: "IRLS_empty_is_zero (IRLS_initialize n)"
  by (simp add: IRLS_empty_is_zero_def IRLS_initialize_def IRLS_reset_def zeros_def
      zeros_mat_def Let_def)

lemma IRLS_empty_is_zero_reset: "IRLS_layout p \<Longrightarrow> IRLS_empty_is_zero (IRLS_reset p)"
  by (auto simp add: IRLS_layout_def IRLS_empty_is_zero_def IRLS_reset_def zeros_mat_def
      list_all_length intro!: nth_equalityI)

lemma IRLS_empty_is_zero_step: "IRLS_step s y x = Inr s' \<Longrightarrow> IRLS_empty_is_zero s'"
  by (auto simp add: IRLS_empty_is_zero_def IRLS_step_def Let_def split: if_splits)

lemma IRLS_empty_is_zero_mergeStates:
  "IRLS_empty_is_zero a \<Longrightarrow> IRLS_empty_is_zero b \<Longrightarrow> IRLS_mergeStates a b = Inr c \<Longrightarrow>
   IRLS_empty_is_zero c"
  by (auto simp add: IRLS_empty_is_zero_def IRLS_mergeStates_def IRLS_plus_eq_def
      split: if_splits)

subsection \<open>The conjugate-gradient final step\<close>

lemma CG_final_iteration: "iteration (CG_final nf s) = iteration s + 1"
  by (simp add: CG_final_def Let_def)

text \<open>
  C1. \<open>LogisticRegressionCG::final\<close> is a state machine with three cases on \<open>iteration\<close>.
  At \<open>iteration = 0\<close> the direction and the gradient become the accumulated gradient
  \<open>gradNew\<close> and the coefficients stay. At an even \<open>iteration > 0\<close> the gradient becomes
  \<open>gradNew\<close>, the coefficients stay, \<open>beta\<close> becomes the quotient of \<open>gradNew \<cdot> \<Delta>\<close> by
  \<open>dir \<cdot> \<Delta>\<close> with \<open>\<Delta> = gradNew - grad\<close>, and the direction becomes \<open>gradNew - beta * dir\<close>.
  At an odd \<open>iteration\<close> the coefficients lose \<open>q * dir\<close>, where \<open>q\<close> is the quotient of
  \<open>grad \<cdot> dir\<close> by \<open>dTHd\<close>. In every case \<open>iteration\<close> grows by exactly one. The products
  and differences are written out index by index. Where the divisor is not zero the
  quotient is the one of the reals; where it is zero the double quotient is no real number
  and nothing is said of its value.
\<close>

theorem CG_final_state_machine:
  assumes "CG_layout s"
  shows "(iteration s = 0 \<longrightarrow>
            dir (CG_final nf s) = gradNew s \<and> grad (CG_final nf s) = gradNew s \<and>
            coef (CG_final nf s) = coef s) \<and>
         (iteration s > 0 \<and> even (iteration s) \<longrightarrow>
            grad (CG_final nf s) = gradNew s \<and> coef (CG_final nf s) = coef s \<and>
            length (dir (CG_final nf s)) = widthOfX s \<and>
            ((\<Sum>i<widthOfX s. dir s ! i * (gradNew s ! i - grad s ! i)) \<noteq> 0 \<longrightarrow>
               beta (CG_final nf s) =
                 (\<Sum>i<widthOfX s. gradNew s ! i * (gradNew s ! i - grad s ! i)) /
                 (\<Sum>i<widthOfX s. dir s ! i * (gradNew s ! i - grad s ! i)) \<and>
               (\<forall>i<widthOfX s.
                  dir (CG_final nf s) ! i =
                    gradNew s ! i - beta (CG_final nf s) * dir s ! i))) \<and>
         (odd (iteration s) \<longrightarrow>
            length (coef (CG_final nf s)) = widthOfX s \<and>
            (dTHd s \<noteq> 0 \<longrightarrow>
               (\<forall>i<widthOfX s. coef (CG_final nf s) ! i =
                  coef s ! i - (\<Sum>j<widthOfX s. grad s ! j * dir s ! j) / dTHd s * dir s ! i))) \<and>
         iteration (CG_final nf s) = iteration s + 1"
proof -
  from assms have len: "length (coef s) = widthOfX s" "length (dir s) = widthOfX s"
    "length (grad s) = widthOfX s" "length (gradNew s) = widthOfX s"
    by (simp_all add: CG_layout_def)
  have c0: "iteration s = 0 \<longrightarrow>
            dir (CG_final nf s) = gradNew s \<and> grad (CG_final nf s) = gradNew s \<and>
            coef (CG_final nf s) = coef s"
    by (simp add: CG_final_def)
  have d1: "dot (gradNew s) (minus_vec (gradNew s) (grad s)) =
        (\<Sum>i<widthOfX s. gradNew s ! i * (gradNew s ! i - grad s ! i))"
    using len by (simp add: dot_sum length_minus_vec nth_minus_vec)
  have d2: "dot (dir s) (minus_vec (gradNew s) (grad s)) =
        (\<Sum>i<widthOfX s. dir s ! i * (gradNew s ! i - grad s ! i))"
    using len by (simp add: dot_sum length_minus_vec nth_minus_vec)
  have d3: "dot (grad s) (dir s) = (\<Sum>j<widthOfX s. grad s ! j * dir s ! j)"
    using len by (simp add: dot_sum)
  have c1: "iteration s > 0 \<and> even (iteration s) \<longrightarrow>
            grad (CG_final nf s) = gradNew s \<and> coef (CG_final nf s) = coef s \<and>
            length (dir (CG_final nf s)) = widthOfX s \<and>
            ((\<Sum>i<widthOfX s. dir s ! i * (gradNew s ! i - grad s ! i)) \<noteq> 0 \<longrightarrow>
               beta (CG_final nf s) =
                 (\<Sum>i<widthOfX s. gradNew s ! i * (gradNew s ! i - grad s ! i)) /
                 (\<Sum>i<widthOfX s. dir s ! i * (gradNew s ! i - grad s ! i)) \<and>
               (\<forall>i<widthOfX s.
                  dir (CG_final nf s) ! i =
                    gradNew s ! i - beta (CG_final nf s) * dir s ! i))"
    using len
    by (auto simp add: CG_final_def Let_def d1 d2 double_div_def length_minus_vec
        length_times_scalar nth_minus_vec nth_times_scalar even_iff_mod_2_eq_zero)
  have c2: "odd (iteration s) \<longrightarrow>
            length (coef (CG_final nf s)) = widthOfX s \<and>
            (dTHd s \<noteq> 0 \<longrightarrow>
               (\<forall>i<widthOfX s. coef (CG_final nf s) ! i =
                  coef s ! i - (\<Sum>j<widthOfX s. grad s ! j * dir s ! j) / dTHd s * dir s ! i))"
    using len
    by (auto simp add: CG_final_def Let_def d3 double_div_def length_minus_vec
        length_times_scalar nth_minus_vec nth_times_scalar odd_iff_mod_2_eq_one)
  from c0 c1 c2 CG_final_iteration [of nf s] show ?thesis by blast
qed

theorem CG_final_state_machine_witness:
  "CG_layout (CG_sample 0 3) \<and> CG_layout (CG_sample 2 3) \<and> CG_layout (CG_sample 1 3) \<and>
   (\<Sum>i<widthOfX (CG_sample 2 3).
      dir (CG_sample 2 3) ! i * (gradNew (CG_sample 2 3) ! i - grad (CG_sample 2 3) ! i)) \<noteq> 0 \<and>
   dTHd (CG_sample 1 3) \<noteq> 0 \<and>
   dir (CG_final 0 (CG_sample 0 3)) = [3, 1] \<and> grad (CG_final 0 (CG_sample 0 3)) = [3, 1] \<and>
   coef (CG_final 0 (CG_sample 0 3)) = [1, 2] \<and> iteration (CG_final 0 (CG_sample 0 3)) = 1 \<and>
   beta (CG_final 0 (CG_sample 2 3)) = 3 \<and> dir (CG_final 0 (CG_sample 2 3)) ! 0 = 0 \<and>
   dir (CG_final 0 (CG_sample 2 3)) ! 1 = 1 \<and> grad (CG_final 0 (CG_sample 2 3)) = [3, 1] \<and>
   coef (CG_final 0 (CG_sample 2 3)) = [1, 2] \<and> iteration (CG_final 0 (CG_sample 2 3)) = 3 \<and>
   coef (CG_final 0 (CG_sample 1 3)) ! 0 = 3 / 2 \<and>
   coef (CG_final 0 (CG_sample 1 3)) ! 1 = 2 \<and>
   iteration (CG_final 0 (CG_sample 1 3)) = 2"
proof -
  have l: "CG_layout (CG_sample 0 3)" "CG_layout (CG_sample 2 3)" "CG_layout (CG_sample 1 3)"
    by (simp_all add: CG_layout_def CG_sample_def CG_arraySize_def)
  have two: "{..<2::nat} = {0, 1}" by auto
  show ?thesis
    using l CG_final_state_machine [OF l(1), of 0] CG_final_state_machine [OF l(2), of 0]
      CG_final_state_machine [OF l(3), of 0]
    by (simp add: CG_sample_def two)
qed

text \<open>
  C2. After \<open>LogisticRegressionCG::final\<close> the iteration counter has grown by one, and the
  intra-iteration fields \<open>numRows\<close>, \<open>gradNew\<close>, \<open>dTHd\<close> and \<open>logLikelihood\<close> of the
  returned state are what they were: \<open>final\<close> does not call \<open>reset\<close> (\<open>distance\<close> reads
  \<open>logLikelihood\<close> of two finalized states). They are set to zero by the next pass: the
  \<open>transition\<close> of its first row takes the finalized state as previous state, copies it and
  resets the copy before it counts the row. The sample state shows that the fields are not
  zero after \<open>final\<close>.
\<close>

theorem CG_final_intra_iteration_fields:
  "iteration (CG_final nf s) = iteration s + 1 \<and>
   numRows (CG_final nf s) = numRows s \<and> gradNew (CG_final nf s) = gradNew s \<and>
   dTHd (CG_final nf s) = dTHd s \<and> logLikelihood (CG_final nf s) = logLikelihood s \<and>
   (numRows s0 = 0 \<longrightarrow>
      CG_transition s0 label x (Some (CG_final nf s)) =
        CG_step (CG_reset (CG_final nf s)) (if label then 1 else - 1) x \<and>
      iteration (CG_reset (CG_final nf s)) = iteration s + 1 \<and>
      numRows (CG_reset (CG_final nf s)) = 0 \<and>
      gradNew (CG_reset (CG_final nf s)) = zeros (length (gradNew s)) \<and>
      dTHd (CG_reset (CG_final nf s)) = 0 \<and>
      logLikelihood (CG_reset (CG_final nf s)) = 0)"
  by (simp add: CG_final_def CG_transition_def CG_first_row_def CG_reset_def Let_def)

theorem CG_final_intra_iteration_fields_counterexample:
  "\<not> (iteration (CG_final 0 (CG_sample 0 3)) = iteration (CG_sample 0 3) + 1 \<and>
      numRows (CG_final 0 (CG_sample 0 3)) = 0 \<and>
      gradNew (CG_final 0 (CG_sample 0 3)) = zeros 2 \<and>
      dTHd (CG_final 0 (CG_sample 0 3)) = 0 \<and>
      logLikelihood (CG_final 0 (CG_sample 0 3)) = 0)"
  by (simp add: CG_final_def CG_sample_def)

theorem CG_final_intra_iteration_fields_witness:
  "numRows (CG_initialize 2) = 0 \<and>
   numRows (CG_final 0 (CG_sample 0 3)) = 3 \<and>
   logLikelihood (CG_final 0 (CG_sample 0 3)) = - 1 \<and>
   CG_transition (CG_initialize 2) True [1, 1] (Some (CG_final 0 (CG_sample 0 3))) =
     CG_step (CG_reset (CG_final 0 (CG_sample 0 3))) 1 [1, 1] \<and>
   numRows (CG_reset (CG_final 0 (CG_sample 0 3))) = 0 \<and>
   gradNew (CG_reset (CG_final 0 (CG_sample 0 3))) = [0, 0]"
  using CG_final_intra_iteration_fields [of 0 "CG_sample 0 3" "CG_initialize 2" True "[1, 1]"]
  by (simp add: CG_initialize_def CG_reset_def CG_sample_def zeros_def
      numeral_2_eq_2 Let_def)

subsection \<open>The conjugate-gradient transition\<close>

lemma CG_step_even:
  "length x = widthOfX s \<Longrightarrow> even (iteration s) \<Longrightarrow>
   CG_step s y x =
     Inr (s\<lparr> numRows := numRows s + 1,
            gradNew := plus_vec (gradNew s) (times_scalar (sigma (- y * dot x (coef s)) * y) x),
            logLikelihood := logLikelihood s - ln (1 + exp (- y * dot x (coef s))) \<rparr>)"
  by (simp add: CG_step_def Let_def even_iff_mod_2_eq_zero)

lemma CG_step_odd:
  "length x = widthOfX s \<Longrightarrow> odd (iteration s) \<Longrightarrow>
   CG_step s y x =
     Inr (s\<lparr> numRows := numRows s + 1,
            dTHd := dTHd s - sigma (dot x (coef s)) * sigma (- dot x (coef s)) *
                      dot x (dir s) * dot x (dir s),
            logLikelihood := logLikelihood s - ln (1 + exp (- y * dot x (coef s))) \<rparr>)"
  by (simp add: CG_step_def Let_def even_iff_mod_2_eq_zero)

text \<open>
  C6. On a row that is not the first of its pass (\<open>numRows > 0\<close> on entry), with \<open>y\<close> the
  sign of the label and \<open>x\<close> a row of \<open>widthOfX\<close> features, \<open>LogisticRegressionCG::transition\<close>
  computes \<open>xc = x \<cdot> coef\<close> and \<open>xd = x \<cdot> dir\<close>. On an even iteration it adds
  \<open>sigma (- y * xc) * y * x\<close> to \<open>gradNew\<close> and leaves \<open>dTHd\<close>; on an odd iteration it takes
  \<open>sigma xc * sigma (- xc) * xd\<^sup>2\<close> from \<open>dTHd\<close> and leaves \<open>gradNew\<close>. In both cases it
  takes \<open>ln (1 + exp (- y * xc))\<close> from \<open>logLikelihood\<close> and adds one to \<open>numRows\<close>.
\<close>

theorem CG_transition_row:
  assumes "CG_layout s" and "numRows s > 0" and "length x = widthOfX s"
    and "y = (if label then 1 else - 1)"
    and "xc = (\<Sum>i<widthOfX s. x ! i * coef s ! i)"
    and "xd = (\<Sum>i<widthOfX s. x ! i * dir s ! i)"
  shows "\<exists>s'. CG_transition s label x previousState = Inr s' \<and>
           numRows s' = numRows s + 1 \<and>
           logLikelihood s' = logLikelihood s - ln (1 + exp (- y * xc)) \<and>
           (even (iteration s) \<longrightarrow>
              length (gradNew s') = widthOfX s \<and>
              (\<forall>i<widthOfX s. gradNew s' ! i = gradNew s ! i + sigma (- y * xc) * y * x ! i) \<and>
              dTHd s' = dTHd s) \<and>
           (odd (iteration s) \<longrightarrow>
              dTHd s' = dTHd s - sigma xc * sigma (- xc) * xd\<^sup>2 \<and>
              gradNew s' = gradNew s)"
proof -
  from assms(1) have len: "length (coef s) = widthOfX s" "length (dir s) = widthOfX s"
    "length (gradNew s) = widthOfX s"
    by (simp_all add: CG_layout_def)
  have dc: "dot x (coef s) = xc"
    unfolding assms(5) using len assms(3) by (simp add: dot_sum)
  have dd: "dot x (dir s) = xd"
    unfolding assms(6) using len assms(3) by (simp add: dot_sum)
  have tr: "CG_transition s label x previousState = CG_step s y x"
    unfolding assms(4) using assms(2) by (simp add: CG_transition_def CG_first_row_def)
  show ?thesis
  proof (cases "even (iteration s)")
    case True
    have lg: "length (plus_vec (gradNew s) (times_scalar (sigma (- y * xc) * y) x)) = widthOfX s"
      using len assms(3) by (simp add: length_plus_vec length_times_scalar)
    have ng: "\<forall>i<widthOfX s.
        plus_vec (gradNew s) (times_scalar (sigma (- y * xc) * y) x) ! i =
        gradNew s ! i + sigma (- y * xc) * y * x ! i"
      using len assms(3) by (simp add: nth_plus_vec nth_times_scalar length_times_scalar)
    show ?thesis
      unfolding tr CG_step_even [OF assms(3) True] dc
      using True lg ng by simp
  next
    case False
    show ?thesis
      unfolding tr CG_step_odd [OF assms(3) False] dc dd
      using False by (simp add: power2_eq_square)
  qed
qed

theorem CG_transition_row_witness:
  "CG_layout (CG_sample 2 3) \<and> CG_layout (CG_sample 1 3) \<and> numRows (CG_sample 2 3) > 0 \<and>
   numRows (CG_sample 1 3) > 0 \<and> length [1, 1 :: real] = widthOfX (CG_sample 2 3) \<and>
   (\<exists>s'. CG_transition (CG_sample 2 3) True [1, 1] None = Inr s' \<and> numRows s' = 4 \<and>
      logLikelihood s' = - 1 - ln (1 + exp (- 3)) \<and>
      gradNew s' ! 0 = 3 + sigma (- 3) \<and> gradNew s' ! 1 = 1 + sigma (- 3) \<and> dTHd s' = - 2) \<and>
   (\<exists>s'. CG_transition (CG_sample 1 3) False [1, 1] None = Inr s' \<and> numRows s' = 4 \<and>
      logLikelihood s' = - 1 - ln (1 + exp 3) \<and>
      dTHd s' = - 2 - sigma 3 * sigma (- 3) \<and> gradNew s' = [3, 1])"
proof -
  have l: "CG_layout (CG_sample 2 3)" "CG_layout (CG_sample 1 3)"
    by (simp_all add: CG_layout_def CG_sample_def CG_arraySize_def)
  have r: "numRows (CG_sample 2 3) > 0" "numRows (CG_sample 1 3) > 0"
    by (simp_all add: CG_sample_def)
  have w: "length [1, 1 :: real] = widthOfX (CG_sample 2 3)"
    "length [1, 1 :: real] = widthOfX (CG_sample 1 3)"
    by (simp_all add: CG_sample_def)
  have two: "{..<2::nat} = {0, 1}" by auto
  have y1: "(1::real) = (if True then 1 else - 1)"
    and y0: "(- 1::real) = (if False then 1 else - 1)"
    by simp_all
  have c2: "(3::real) = (\<Sum>i<widthOfX (CG_sample 2 3). [1, 1] ! i * coef (CG_sample 2 3) ! i)"
    and d2: "(1::real) = (\<Sum>i<widthOfX (CG_sample 2 3). [1, 1] ! i * dir (CG_sample 2 3) ! i)"
    and c1: "(3::real) = (\<Sum>i<widthOfX (CG_sample 1 3). [1, 1] ! i * coef (CG_sample 1 3) ! i)"
    and d1: "(1::real) = (\<Sum>i<widthOfX (CG_sample 1 3). [1, 1] ! i * dir (CG_sample 1 3) ! i)"
    by (simp_all add: CG_sample_def two)
  have a: "\<exists>s'. CG_transition (CG_sample 2 3) True [1, 1] None = Inr s' \<and> numRows s' = 4 \<and>
      logLikelihood s' = - 1 - ln (1 + exp (- 3)) \<and>
      gradNew s' ! 0 = 3 + sigma (- 3) \<and> gradNew s' ! 1 = 1 + sigma (- 3) \<and> dTHd s' = - 2"
    using CG_transition_row [OF l(1) r(1) w(1) y1 c2 d2, of None]
    by (auto simp add: CG_sample_def)
  have b: "\<exists>s'. CG_transition (CG_sample 1 3) False [1, 1] None = Inr s' \<and> numRows s' = 4 \<and>
      logLikelihood s' = - 1 - ln (1 + exp 3) \<and>
      dTHd s' = - 2 - sigma 3 * sigma (- 3) \<and> gradNew s' = [3, 1]"
    using CG_transition_row [OF l(2) r(2) w(2) y0 c1 d1, of None]
    by (auto simp add: CG_sample_def)
  from l r w a b show ?thesis by blast
qed

text \<open>
  Both transitions turn the label into \<open>y\<close> by its truth value: a true label gives
  \<open>y = 1\<close> and a false one \<open>y = - 1\<close>.
\<close>

lemma transition_label_truth_value:
  "CG_transition s label x p = CG_step (CG_first_row s x p) (if label then 1 else - 1) x \<and>
   IRLS_transition s' label x p' =
     IRLS_step (IRLS_first_row s' x p') (if label then 1 else - 1) x"
  by (simp add: CG_transition_def IRLS_transition_def)

subsection \<open>Merging transition states\<close>

text \<open>
  C3. When the left operand of \<open>mergeStates\<close> has seen no row, the right operand is
  returned as it is; when the left operand has seen a row and the right one has seen
  none, the left operand is returned as it is. This holds for both aggregates. The left
  operand is tested first, so of two operands without rows the right one is returned,
  whatever the left one carries: a state that holds only the fields of a previous
  iteration is lost when it is merged with the all-zero state on its right.
\<close>

theorem mergeStates_zero_rows:
  "(numRows l = 0 \<longrightarrow> CG_mergeStates l r = Inr r) \<and>
   (numRows l \<noteq> 0 \<and> numRows r = 0 \<longrightarrow> CG_mergeStates l r = Inr l) \<and>
   (numRows_irls l' = 0 \<longrightarrow> IRLS_mergeStates l' r' = Inr r') \<and>
   (numRows_irls l' \<noteq> 0 \<and> numRows_irls r' = 0 \<longrightarrow> IRLS_mergeStates l' r' = Inr l')"
  by (simp add: CG_mergeStates_def IRLS_mergeStates_def)

theorem mergeStates_zero_rows_counterexample:
  "numRows (CG_reset (CG_final 0 (CG_sample 0 3))) = 0 \<and> numRows (CG_initialize 0) = 0 \<and>
   CG_mergeStates (CG_reset (CG_final 0 (CG_sample 0 3))) (CG_initialize 0) =
     Inr (CG_initialize 0) \<and>
   CG_mergeStates (CG_reset (CG_final 0 (CG_sample 0 3))) (CG_initialize 0) \<noteq>
     Inr (CG_reset (CG_final 0 (CG_sample 0 3))) \<and>
   numRows_irls (IRLS_reset (IRLS_sample 3)) = 0 \<and> numRows_irls (IRLS_initialize 0) = 0 \<and>
   IRLS_mergeStates (IRLS_reset (IRLS_sample 3)) (IRLS_initialize 0) =
     Inr (IRLS_initialize 0) \<and>
   IRLS_mergeStates (IRLS_reset (IRLS_sample 3)) (IRLS_initialize 0) \<noteq>
     Inr (IRLS_reset (IRLS_sample 3))"
  by (simp add: CG_mergeStates_def CG_sample_def CG_reset_def CG_final_def CG_initialize_def
      CG_arraySize_def IRLS_mergeStates_def IRLS_sample_def IRLS_reset_def IRLS_initialize_def
      IRLS_arraySize_def Let_def)

theorem mergeStates_zero_rows_witness:
  "numRows (CG_initialize 2) = 0 \<and>
   CG_mergeStates (CG_initialize 2) (CG_sample 0 3) = Inr (CG_sample 0 3) \<and>
   numRows (CG_sample 0 3) \<noteq> 0 \<and>
   CG_mergeStates (CG_sample 0 3) (CG_initialize 2) = Inr (CG_sample 0 3) \<and>
   numRows_irls (IRLS_initialize 2) = 0 \<and>
   IRLS_mergeStates (IRLS_initialize 2) (IRLS_sample 3) = Inr (IRLS_sample 3) \<and>
   numRows_irls (IRLS_sample 3) \<noteq> 0 \<and>
   IRLS_mergeStates (IRLS_sample 3) (IRLS_initialize 2) = Inr (IRLS_sample 3)"
  using
    mergeStates_zero_rows [of "CG_initialize 2" "CG_sample 0 3" "IRLS_initialize 2" "IRLS_sample 3"]
    mergeStates_zero_rows [of "CG_sample 0 3" "CG_initialize 2" "IRLS_sample 3" "IRLS_initialize 2"]
  by (simp add: CG_sample_def IRLS_sample_def CG_initialize_def IRLS_initialize_def
      CG_reset_def IRLS_reset_def Let_def)

text \<open>
  C5. When both operands of \<open>mergeStates\<close> have seen a row and their \<open>widthOfX\<close> or the
  lengths of their arrays differ, \<open>operator+=\<close> throws the logic error "Incompatible
  transition states" and no merged state is returned, in both aggregates.
\<close>

theorem mergeStates_incompatible:
  "(numRows l > 0 \<and> numRows r > 0 \<and>
      (widthOfX l \<noteq> widthOfX r \<or> mStorage_size l \<noteq> mStorage_size r) \<longrightarrow>
      CG_mergeStates l r = Inl Incompatible_transition_states) \<and>
   (numRows_irls l' > 0 \<and> numRows_irls r' > 0 \<and>
      (widthOfX_irls l' \<noteq> widthOfX_irls r' \<or> mStorage_size_irls l' \<noteq> mStorage_size_irls r') \<longrightarrow>
      IRLS_mergeStates l' r' = Inl Incompatible_transition_states)"
  by (auto simp add: CG_mergeStates_def CG_plus_eq_def IRLS_mergeStates_def IRLS_plus_eq_def)

theorem mergeStates_incompatible_witness:
  "numRows (CG_sample 0 3) > 0 \<and> numRows ((CG_initialize 1)\<lparr>numRows := 2\<rparr>) > 0 \<and>
   widthOfX (CG_sample 0 3) \<noteq> widthOfX ((CG_initialize 1)\<lparr>numRows := 2\<rparr>) \<and>
   CG_mergeStates (CG_sample 0 3) ((CG_initialize 1)\<lparr>numRows := 2\<rparr>) =
     Inl Incompatible_transition_states \<and>
   numRows_irls (IRLS_sample 3) > 0 \<and>
   numRows_irls ((IRLS_initialize 1)\<lparr>numRows_irls := 2\<rparr>) > 0 \<and>
   mStorage_size_irls (IRLS_sample 3) \<noteq>
     mStorage_size_irls ((IRLS_initialize 1)\<lparr>numRows_irls := 2\<rparr>) \<and>
   IRLS_mergeStates (IRLS_sample 3) ((IRLS_initialize 1)\<lparr>numRows_irls := 2\<rparr>) =
     Inl Incompatible_transition_states"
  using mergeStates_incompatible [of "CG_sample 0 3" "(CG_initialize 1)\<lparr>numRows := 2\<rparr>"
      "IRLS_sample 3" "(IRLS_initialize 1)\<lparr>numRows_irls := 2\<rparr>"]
  by (simp add: CG_sample_def IRLS_sample_def CG_initialize_def IRLS_initialize_def
      CG_reset_def IRLS_reset_def CG_arraySize_def IRLS_arraySize_def Let_def)

lemma CG_mergeStates_assoc:
  assumes "mStorage_size a = mStorage_size b" "widthOfX a = widthOfX b"
    and "mStorage_size b = mStorage_size c" "widthOfX b = widthOfX c"
  shows "\<exists>ab bc abc. CG_mergeStates a b = Inr ab \<and> CG_mergeStates ab c = Inr abc \<and>
           CG_mergeStates b c = Inr bc \<and> CG_mergeStates a bc = Inr abc"
  using assms
  by (simp add: CG_mergeStates_def CG_plus_eq_def plus_vec_assoc add.assoc)

lemma CG_mergeStates_commute:
  assumes "CG_same_fit a b" "CG_empty_is_zero a" "CG_empty_is_zero b"
  shows "CG_mergeStates a b = CG_mergeStates b a"
proof (cases "numRows a = 0 \<and> numRows b = 0")
  case True
  with assms have "a = b"
    by (simp add: CG_same_fit_def CG_empty_is_zero_def)
  then show ?thesis by simp
next
  case False
  with assms show ?thesis
    by (auto simp add: CG_mergeStates_def CG_plus_eq_def CG_same_fit_def
        plus_vec_commute [of "gradNew a"] add.commute)
qed

lemma IRLS_mergeStates_assoc:
  assumes "mStorage_size_irls a = mStorage_size_irls b" "widthOfX_irls a = widthOfX_irls b"
    and "mStorage_size_irls b = mStorage_size_irls c" "widthOfX_irls b = widthOfX_irls c"
  shows "\<exists>ab bc abc. IRLS_mergeStates a b = Inr ab \<and> IRLS_mergeStates ab c = Inr abc \<and>
           IRLS_mergeStates b c = Inr bc \<and> IRLS_mergeStates a bc = Inr abc"
  using assms
  by (simp add: IRLS_mergeStates_def IRLS_plus_eq_def plus_vec_assoc plus_mat_assoc add.assoc)

lemma IRLS_mergeStates_commute:
  assumes "IRLS_same_fit a b" "IRLS_empty_is_zero a" "IRLS_empty_is_zero b"
  shows "IRLS_mergeStates a b = IRLS_mergeStates b a"
proof (cases "numRows_irls a = 0 \<and> numRows_irls b = 0")
  case True
  with assms have "a = b"
    by (simp add: IRLS_same_fit_def IRLS_empty_is_zero_def)
  then show ?thesis by simp
next
  case False
  with assms show ?thesis
    by (auto simp add: IRLS_mergeStates_def IRLS_plus_eq_def IRLS_same_fit_def
        plus_vec_commute [of "X_transp_Az a"] plus_mat_commute [of "X_transp_AX a"] add.commute)
qed

lemma CG_mergeStates_commute_iff:
  assumes "CG_same_fit a b"
  shows "CG_mergeStates a b = CG_mergeStates b a \<longleftrightarrow>
         (numRows a \<noteq> 0 \<or> numRows b \<noteq> 0 \<or> a = b)"
proof (cases "numRows a = 0 \<and> numRows b = 0")
  case True
  then show ?thesis by (auto simp add: CG_mergeStates_def)
next
  case False
  with assms show ?thesis
    by (auto simp add: CG_mergeStates_def CG_plus_eq_def CG_same_fit_def
        plus_vec_commute [of "gradNew a"] add.commute)
qed

lemma IRLS_mergeStates_commute_iff:
  assumes "IRLS_same_fit a b"
  shows "IRLS_mergeStates a b = IRLS_mergeStates b a \<longleftrightarrow>
         (numRows_irls a \<noteq> 0 \<or> numRows_irls b \<noteq> 0 \<or> a = b)"
proof (cases "numRows_irls a = 0 \<and> numRows_irls b = 0")
  case True
  then show ?thesis by (auto simp add: IRLS_mergeStates_def)
next
  case False
  with assms show ?thesis
    by (auto simp add: IRLS_mergeStates_def IRLS_plus_eq_def IRLS_same_fit_def
        plus_vec_commute [of "X_transp_Az a"] plus_mat_commute [of "X_transp_AX a"] add.commute)
qed

lemma CG_mergeStates_adds:
  assumes "mStorage_size a = mStorage_size b" and "widthOfX a = widthOfX b"
    and "numRows a > 0" and "numRows b > 0"
  shows "\<exists>r. CG_mergeStates a b = Inr r \<and>
           numRows r = numRows a + numRows b \<and>
           length (gradNew r) = min (length (gradNew a)) (length (gradNew b)) \<and>
           (\<forall>i<length (gradNew r). gradNew r ! i = gradNew a ! i + gradNew b ! i) \<and>
           dTHd r = dTHd a + dTHd b \<and>
           logLikelihood r = logLikelihood a + logLikelihood b \<and>
           mStorage_size r = mStorage_size a \<and> iteration r = iteration a \<and>
           widthOfX r = widthOfX a \<and> coef r = coef a \<and> dir r = dir a \<and>
           grad r = grad a \<and> beta r = beta a"
  using assms
  by (simp add: CG_mergeStates_def CG_plus_eq_def length_plus_vec nth_plus_vec)

lemma IRLS_mergeStates_adds:
  assumes "mStorage_size_irls a = mStorage_size_irls b" and "widthOfX_irls a = widthOfX_irls b"
    and "numRows_irls a > 0" and "numRows_irls b > 0"
  shows "\<exists>r. IRLS_mergeStates a b = Inr r \<and>
           numRows_irls r = numRows_irls a + numRows_irls b \<and>
           length (X_transp_Az r) = min (length (X_transp_Az a)) (length (X_transp_Az b)) \<and>
           (\<forall>i<length (X_transp_Az r). X_transp_Az r ! i = X_transp_Az a ! i + X_transp_Az b ! i) \<and>
           length (X_transp_AX r) = min (length (X_transp_AX a)) (length (X_transp_AX b)) \<and>
           (\<forall>i<length (X_transp_AX r).
              length (X_transp_AX r ! i) =
                min (length (X_transp_AX a ! i)) (length (X_transp_AX b ! i)) \<and>
              (\<forall>j<length (X_transp_AX r ! i).
                 X_transp_AX r ! i ! j = X_transp_AX a ! i ! j + X_transp_AX b ! i ! j)) \<and>
           logLikelihood_irls r = logLikelihood_irls a + logLikelihood_irls b \<and>
           mStorage_size_irls r = mStorage_size_irls a \<and>
           widthOfX_irls r = widthOfX_irls a \<and> coef_irls r = coef_irls a"
  using assms
  by (simp add: IRLS_mergeStates_def IRLS_plus_eq_def length_plus_vec nth_plus_vec
      length_plus_mat nth_plus_mat)

text \<open>
  C4. Over the reals, for accumulators \<open>a\<close>, \<open>b\<close>, \<open>c\<close> with the same \<open>widthOfX\<close>, the
  same array length and equal inter-iteration fields, in both aggregates:
  \<open>mergeStates\<close> never fails and is associative;
  \<open>mergeStates a b = mergeStates b a\<close> exactly when one of the two has seen a row or the
  two are equal, hence whenever every state with \<open>numRows = 0\<close> has its other
  intra-iteration fields zero as well;
  and the merge of two operands that have seen rows is the left operand with the
  intra-iteration fields added field by field, the inter-iteration fields untouched.
  Of two states with \<open>numRows = 0\<close> the right one is returned, so two such states that
  differ in \<open>logLikelihood\<close> merge to different results in the two orders.
\<close>

theorem mergeStates_assoc_commute:
  assumes "CG_same_fit a b" and "CG_same_fit b c"
    and "IRLS_same_fit a' b'" and "IRLS_same_fit b' c'"
  shows "(\<exists>ab bc abc. CG_mergeStates a b = Inr ab \<and> CG_mergeStates ab c = Inr abc \<and>
            CG_mergeStates b c = Inr bc \<and> CG_mergeStates a bc = Inr abc) \<and>
         (CG_mergeStates a b = CG_mergeStates b a \<longleftrightarrow>
            (numRows a \<noteq> 0 \<or> numRows b \<noteq> 0 \<or> a = b)) \<and>
         (CG_empty_is_zero a \<and> CG_empty_is_zero b \<longrightarrow>
            CG_mergeStates a b = CG_mergeStates b a) \<and>
         (numRows a > 0 \<and> numRows b > 0 \<longrightarrow>
            (\<exists>r. CG_mergeStates a b = Inr r \<and>
               numRows r = numRows a + numRows b \<and>
               length (gradNew r) = min (length (gradNew a)) (length (gradNew b)) \<and>
               (\<forall>i<length (gradNew r). gradNew r ! i = gradNew a ! i + gradNew b ! i) \<and>
               dTHd r = dTHd a + dTHd b \<and>
               logLikelihood r = logLikelihood a + logLikelihood b \<and>
               mStorage_size r = mStorage_size a \<and> iteration r = iteration a \<and>
               widthOfX r = widthOfX a \<and> coef r = coef a \<and> dir r = dir a \<and>
               grad r = grad a \<and> beta r = beta a)) \<and>
         (\<exists>ab bc abc. IRLS_mergeStates a' b' = Inr ab \<and> IRLS_mergeStates ab c' = Inr abc \<and>
            IRLS_mergeStates b' c' = Inr bc \<and> IRLS_mergeStates a' bc = Inr abc) \<and>
         (IRLS_mergeStates a' b' = IRLS_mergeStates b' a' \<longleftrightarrow>
            (numRows_irls a' \<noteq> 0 \<or> numRows_irls b' \<noteq> 0 \<or> a' = b')) \<and>
         (IRLS_empty_is_zero a' \<and> IRLS_empty_is_zero b' \<longrightarrow>
            IRLS_mergeStates a' b' = IRLS_mergeStates b' a') \<and>
         (numRows_irls a' > 0 \<and> numRows_irls b' > 0 \<longrightarrow>
            (\<exists>r. IRLS_mergeStates a' b' = Inr r \<and>
               numRows_irls r = numRows_irls a' + numRows_irls b' \<and>
               length (X_transp_Az r) =
                 min (length (X_transp_Az a')) (length (X_transp_Az b')) \<and>
               (\<forall>i<length (X_transp_Az r).
                  X_transp_Az r ! i = X_transp_Az a' ! i + X_transp_Az b' ! i) \<and>
               length (X_transp_AX r) =
                 min (length (X_transp_AX a')) (length (X_transp_AX b')) \<and>
               (\<forall>i<length (X_transp_AX r).
                  length (X_transp_AX r ! i) =
                    min (length (X_transp_AX a' ! i)) (length (X_transp_AX b' ! i)) \<and>
                  (\<forall>j<length (X_transp_AX r ! i).
                     X_transp_AX r ! i ! j = X_transp_AX a' ! i ! j + X_transp_AX b' ! i ! j)) \<and>
               logLikelihood_irls r = logLikelihood_irls a' + logLikelihood_irls b' \<and>
               mStorage_size_irls r = mStorage_size_irls a' \<and>
               widthOfX_irls r = widthOfX_irls a' \<and> coef_irls r = coef_irls a'))"
proof -
  from assms(1,2) have sz: "mStorage_size a = mStorage_size b" "widthOfX a = widthOfX b"
    "mStorage_size b = mStorage_size c" "widthOfX b = widthOfX c"
    by (simp_all add: CG_same_fit_def)
  from assms(3,4) have sz': "mStorage_size_irls a' = mStorage_size_irls b'"
    "widthOfX_irls a' = widthOfX_irls b'" "mStorage_size_irls b' = mStorage_size_irls c'"
    "widthOfX_irls b' = widthOfX_irls c'"
    by (simp_all add: IRLS_same_fit_def)
  note 1 = CG_mergeStates_assoc [OF sz]
  note 2 = CG_mergeStates_commute_iff [OF assms(1)]
  have 3: "CG_empty_is_zero a \<and> CG_empty_is_zero b \<longrightarrow>
      CG_mergeStates a b = CG_mergeStates b a"
    using CG_mergeStates_commute [OF assms(1)] by blast
  have 4: "numRows a > 0 \<and> numRows b > 0 \<longrightarrow>
            (\<exists>r. CG_mergeStates a b = Inr r \<and>
               numRows r = numRows a + numRows b \<and>
               length (gradNew r) = min (length (gradNew a)) (length (gradNew b)) \<and>
               (\<forall>i<length (gradNew r). gradNew r ! i = gradNew a ! i + gradNew b ! i) \<and>
               dTHd r = dTHd a + dTHd b \<and>
               logLikelihood r = logLikelihood a + logLikelihood b \<and>
               mStorage_size r = mStorage_size a \<and> iteration r = iteration a \<and>
               widthOfX r = widthOfX a \<and> coef r = coef a \<and> dir r = dir a \<and>
               grad r = grad a \<and> beta r = beta a)"
    using CG_mergeStates_adds [OF sz(1,2)] by blast
  note 5 = IRLS_mergeStates_assoc [OF sz']
  note 6 = IRLS_mergeStates_commute_iff [OF assms(3)]
  have 7: "IRLS_empty_is_zero a' \<and> IRLS_empty_is_zero b' \<longrightarrow>
      IRLS_mergeStates a' b' = IRLS_mergeStates b' a'"
    using IRLS_mergeStates_commute [OF assms(3)] by blast
  have 8: "numRows_irls a' > 0 \<and> numRows_irls b' > 0 \<longrightarrow>
            (\<exists>r. IRLS_mergeStates a' b' = Inr r \<and>
               numRows_irls r = numRows_irls a' + numRows_irls b' \<and>
               length (X_transp_Az r) =
                 min (length (X_transp_Az a')) (length (X_transp_Az b')) \<and>
               (\<forall>i<length (X_transp_Az r).
                  X_transp_Az r ! i = X_transp_Az a' ! i + X_transp_Az b' ! i) \<and>
               length (X_transp_AX r) =
                 min (length (X_transp_AX a')) (length (X_transp_AX b')) \<and>
               (\<forall>i<length (X_transp_AX r).
                  length (X_transp_AX r ! i) =
                    min (length (X_transp_AX a' ! i)) (length (X_transp_AX b' ! i)) \<and>
                  (\<forall>j<length (X_transp_AX r ! i).
                     X_transp_AX r ! i ! j = X_transp_AX a' ! i ! j + X_transp_AX b' ! i ! j)) \<and>
               logLikelihood_irls r = logLikelihood_irls a' + logLikelihood_irls b' \<and>
               mStorage_size_irls r = mStorage_size_irls a' \<and>
               widthOfX_irls r = widthOfX_irls a' \<and> coef_irls r = coef_irls a')"
    using IRLS_mergeStates_adds [OF sz'(1,2)] by blast
  show ?thesis
    by (intro conjI) (rule 1, rule 2, rule 3, rule 4, rule 5, rule 6, rule 7, rule 8)
qed

theorem mergeStates_assoc_commute_counterexample:
  "CG_same_fit (CG_initialize 2) ((CG_initialize 2)\<lparr>logLikelihood := - 1\<rparr>) \<and>
   numRows (CG_initialize 2) = 0 \<and> numRows ((CG_initialize 2)\<lparr>logLikelihood := - 1\<rparr>) = 0 \<and>
   CG_mergeStates (CG_initialize 2) ((CG_initialize 2)\<lparr>logLikelihood := - 1\<rparr>) \<noteq>
   CG_mergeStates ((CG_initialize 2)\<lparr>logLikelihood := - 1\<rparr>) (CG_initialize 2)"
  by (simp add: CG_same_fit_def CG_initialize_def CG_reset_def CG_mergeStates_def Let_def)

theorem mergeStates_assoc_commute_witness:
  "CG_same_fit (CG_sample 2 3) (CG_sample 2 5) \<and>
   CG_same_fit (CG_sample 2 5) (CG_reset (CG_sample 2 0)) \<and>
   IRLS_same_fit (IRLS_sample 3) (IRLS_sample 5) \<and>
   IRLS_same_fit (IRLS_sample 5) (IRLS_reset (IRLS_sample 0)) \<and>
   (\<exists>ab bc abc. CG_mergeStates (CG_sample 2 3) (CG_sample 2 5) = Inr ab \<and>
      CG_mergeStates ab (CG_reset (CG_sample 2 0)) = Inr abc \<and>
      CG_mergeStates (CG_sample 2 5) (CG_reset (CG_sample 2 0)) = Inr bc \<and>
      CG_mergeStates (CG_sample 2 3) bc = Inr abc) \<and>
   CG_mergeStates (CG_sample 2 3) (CG_sample 2 5) =
     CG_mergeStates (CG_sample 2 5) (CG_sample 2 3) \<and>
   (\<exists>r. CG_mergeStates (CG_sample 2 3) (CG_sample 2 5) = Inr r \<and> numRows r = 8 \<and>
      gradNew r ! 0 = 6 \<and> gradNew r ! 1 = 2 \<and> dTHd r = - 4 \<and> logLikelihood r = - 2 \<and>
      coef r = [1, 2] \<and> iteration r = 2) \<and>
   (\<exists>ab bc abc. IRLS_mergeStates (IRLS_sample 3) (IRLS_sample 5) = Inr ab \<and>
      IRLS_mergeStates ab (IRLS_reset (IRLS_sample 0)) = Inr abc \<and>
      IRLS_mergeStates (IRLS_sample 5) (IRLS_reset (IRLS_sample 0)) = Inr bc \<and>
      IRLS_mergeStates (IRLS_sample 3) bc = Inr abc) \<and>
   IRLS_mergeStates (IRLS_sample 3) (IRLS_sample 5) =
     IRLS_mergeStates (IRLS_sample 5) (IRLS_sample 3) \<and>
   (\<exists>r. IRLS_mergeStates (IRLS_sample 3) (IRLS_sample 5) = Inr r \<and> numRows_irls r = 8 \<and>
      X_transp_Az r ! 0 = 2 \<and> X_transp_AX r ! 0 ! 0 = 2 \<and> X_transp_AX r ! 0 ! 1 = 0 \<and>
      logLikelihood_irls r = - 2 \<and> coef_irls r = [1, 2])"
proof -
  have h: "CG_same_fit (CG_sample 2 3) (CG_sample 2 5)"
    "CG_same_fit (CG_sample 2 5) (CG_reset (CG_sample 2 0))"
    "IRLS_same_fit (IRLS_sample 3) (IRLS_sample 5)"
    "IRLS_same_fit (IRLS_sample 5) (IRLS_reset (IRLS_sample 0))"
    by (simp_all add: CG_same_fit_def CG_sample_def CG_reset_def
        IRLS_same_fit_def IRLS_sample_def IRLS_reset_def)
  have e: "CG_empty_is_zero (CG_sample 2 3)" "CG_empty_is_zero (CG_sample 2 5)"
    "IRLS_empty_is_zero (IRLS_sample 3)" "IRLS_empty_is_zero (IRLS_sample 5)"
    by (simp_all add: CG_empty_is_zero_def CG_sample_def IRLS_empty_is_zero_def
        IRLS_sample_def)
  have n: "numRows (CG_sample 2 3) > 0 \<and> numRows (CG_sample 2 5) > 0"
    "numRows_irls (IRLS_sample 3) > 0 \<and> numRows_irls (IRLS_sample 5) > 0"
    by (simp_all add: CG_sample_def IRLS_sample_def)
  note t = mergeStates_assoc_commute [OF h]
  from t have a: "\<exists>ab bc abc. CG_mergeStates (CG_sample 2 3) (CG_sample 2 5) = Inr ab \<and>
      CG_mergeStates ab (CG_reset (CG_sample 2 0)) = Inr abc \<and>
      CG_mergeStates (CG_sample 2 5) (CG_reset (CG_sample 2 0)) = Inr bc \<and>
      CG_mergeStates (CG_sample 2 3) bc = Inr abc"
    by blast
  from t e have b: "CG_mergeStates (CG_sample 2 3) (CG_sample 2 5) =
     CG_mergeStates (CG_sample 2 5) (CG_sample 2 3)"
    by blast
  from t n have "\<exists>r. CG_mergeStates (CG_sample 2 3) (CG_sample 2 5) = Inr r \<and>
      numRows r = numRows (CG_sample 2 3) + numRows (CG_sample 2 5) \<and>
      length (gradNew r) =
        min (length (gradNew (CG_sample 2 3))) (length (gradNew (CG_sample 2 5))) \<and>
      (\<forall>i<length (gradNew r).
         gradNew r ! i = gradNew (CG_sample 2 3) ! i + gradNew (CG_sample 2 5) ! i) \<and>
      dTHd r = dTHd (CG_sample 2 3) + dTHd (CG_sample 2 5) \<and>
      logLikelihood r = logLikelihood (CG_sample 2 3) + logLikelihood (CG_sample 2 5) \<and>
      mStorage_size r = mStorage_size (CG_sample 2 3) \<and>
      iteration r = iteration (CG_sample 2 3) \<and>
      widthOfX r = widthOfX (CG_sample 2 3) \<and> coef r = coef (CG_sample 2 3) \<and>
      dir r = dir (CG_sample 2 3) \<and> grad r = grad (CG_sample 2 3) \<and>
      beta r = beta (CG_sample 2 3)"
    by blast
  then have c: "\<exists>r. CG_mergeStates (CG_sample 2 3) (CG_sample 2 5) = Inr r \<and> numRows r = 8 \<and>
      gradNew r ! 0 = 6 \<and> gradNew r ! 1 = 2 \<and> dTHd r = - 4 \<and> logLikelihood r = - 2 \<and>
      coef r = [1, 2] \<and> iteration r = 2"
    by (auto simp add: CG_sample_def)
  from t have a': "\<exists>ab bc abc. IRLS_mergeStates (IRLS_sample 3) (IRLS_sample 5) = Inr ab \<and>
      IRLS_mergeStates ab (IRLS_reset (IRLS_sample 0)) = Inr abc \<and>
      IRLS_mergeStates (IRLS_sample 5) (IRLS_reset (IRLS_sample 0)) = Inr bc \<and>
      IRLS_mergeStates (IRLS_sample 3) bc = Inr abc"
    by blast
  from t e have b': "IRLS_mergeStates (IRLS_sample 3) (IRLS_sample 5) =
     IRLS_mergeStates (IRLS_sample 5) (IRLS_sample 3)"
    by blast
  have c': "\<exists>r. IRLS_mergeStates (IRLS_sample 3) (IRLS_sample 5) = Inr r \<and>
      numRows_irls r = 8 \<and>
      X_transp_Az r ! 0 = 2 \<and> X_transp_AX r ! 0 ! 0 = 2 \<and> X_transp_AX r ! 0 ! 1 = 0 \<and>
      logLikelihood_irls r = - 2 \<and> coef_irls r = [1, 2]"
    by (simp add: IRLS_mergeStates_def IRLS_plus_eq_def IRLS_sample_def plus_vec_def
        plus_mat_def)
  from h a b c a' b' c' show ?thesis by blast
qed

subsection \<open>The IRLS final step\<close>

lemma pinv_1x1_Moore_Penrose:
  assumes "pinv_1x1 [[a]] = Inr [[p]]"
  shows "a * p * a = a \<and> p * a * p = p"
  using assms by (auto simp add: pinv_1x1_def split: if_splits)





subsection \<open>The Student-t distribution function\<close>

lemma normal_cdf_range:
  assumes "\<forall>x. - 1 \<le> erf x \<and> erf x \<le> 1"
  shows "0 \<le> normal_cdf erf t \<and> normal_cdf erf t \<le> 1"
proof -
  from assms have "- 1 \<le> erf (t / sqrt 2)" "erf (t / sqrt 2) \<le> 1" by simp_all
  then show ?thesis by (simp add: normal_cdf_def)
qed

lemma studentT_cdf_series:
  assumes "1 \<le> nu" "nu < 200"
  shows "\<exists>A0. (t = 0 \<longrightarrow> A0 = 0) \<and>
           studentT_cdf erf nu t =
             Some (if t < 0 then 0.5 * (1 - (if A0 > 1 then 1 else if A0 < 0 then 0 else A0))
                   else 1 - 0.5 * (1 - (if A0 > 1 then 1 else if A0 < 0 then 0 else A0))) \<and>
           studentT_cdf erf nu (- t) =
             Some (if - t < 0 then 0.5 * (1 - (if A0 > 1 then 1 else if A0 < 0 then 0 else A0))
                   else 1 - 0.5 * (1 - (if A0 > 1 then 1 else if A0 < 0 then 0 else A0)))"
proof -
  let ?z = "1 + t * t / real_of_int nu"
  let ?r = "\<bar>t\<bar> / sqrt (real_of_int nu)"
  let ?A0 = "if nu = 1 then 2 / pi * arctan ?r
             else if nu AND 1 \<noteq> 0
             then 2 / pi * (arctan ?r + ?r / ?z * odd_nu_loop nu ?z 2 1 1)
             else ?r / sqrt ?z * even_nu_loop nu ?z 2 1 1"
  from assms have n: "\<not> nu \<le> 0" "\<not> nu \<ge> 1000000" "\<not> nu \<ge> 200" by simp_all
  have e1: "studentT_cdf erf nu t =
      Some (if t < 0 then 0.5 * (1 - (if ?A0 > 1 then 1 else if ?A0 < 0 then 0 else ?A0))
            else 1 - 0.5 * (1 - (if ?A0 > 1 then 1 else if ?A0 < 0 then 0 else ?A0)))"
    by (simp only: studentT_cdf_def Let_def n if_False)
  have e2: "studentT_cdf erf nu (- t) =
      Some (if - t < 0 then 0.5 * (1 - (if ?A0 > 1 then 1 else if ?A0 < 0 then 0 else ?A0))
            else 1 - 0.5 * (1 - (if ?A0 > 1 then 1 else if ?A0 < 0 then 0 else ?A0)))"
    by (simp only: studentT_cdf_def Let_def n if_False abs_minus_cancel minus_mult_minus)
  have z0: "t = 0 \<longrightarrow> ?A0 = 0" by simp
  from z0 e1 e2 show ?thesis by blast
qed

lemma clamp_half_range:
  fixes A0 :: real
  shows "0 \<le> (if c then 0.5 * (1 - (if A0 > 1 then 1 else if A0 < 0 then 0 else A0))
               else 1 - 0.5 * (1 - (if A0 > 1 then 1 else if A0 < 0 then 0 else A0))) \<and>
         (if c then 0.5 * (1 - (if A0 > 1 then 1 else if A0 < 0 then 0 else A0))
          else 1 - 0.5 * (1 - (if A0 > 1 then 1 else if A0 < 0 then 0 else A0))) \<le> 1"
  by auto

lemma studentT_cdf_series_range:
  assumes "1 \<le> nu" "nu < 200"
  shows "\<exists>p. studentT_cdf erf nu t = Some p \<and> 0 \<le> p \<and> p \<le> 1"
proof -
  from studentT_cdf_series [OF assms, of t erf] obtain A0 where
    "studentT_cdf erf nu t =
       Some (if t < 0 then 0.5 * (1 - (if A0 > 1 then 1 else if A0 < 0 then 0 else A0))
             else 1 - 0.5 * (1 - (if A0 > 1 then 1 else if A0 < 0 then 0 else A0)))"
    by blast
  with clamp_half_range [of "t < 0" A0] show ?thesis by blast
qed

text \<open>
  C8. For every \<open>nu \<le> 0\<close> and every real \<open>t\<close> the distribution function gives no
  probability: \<open>studentT_cdf\<close> returns \<open>NAN\<close> and the database function \<open>student_t_cdf\<close>
  throws the domain error. For every \<open>nu \<ge> 1\<close> both return a probability in \<open>[0, 1]\<close>;
  in the two regimes that go through the normal distribution this rests on the error
  function having its values in \<open>[- 1, 1]\<close>.
\<close>

theorem studentT_cdf_range:
  "(nu \<le> 0 \<longrightarrow>
      studentT_cdf erf nu t = None \<and>
      student_t_cdf erf nu t = Inl Undefined_degree_of_freedom) \<and>
   (1 \<le> nu \<and> (\<forall>x. - 1 \<le> erf x \<and> erf x \<le> 1) \<longrightarrow>
      (\<exists>p. studentT_cdf erf nu t = Some p \<and> student_t_cdf erf nu t = Inr (Some p) \<and>
           0 \<le> p \<and> p \<le> 1))"
proof (intro conjI impI)
  assume "nu \<le> 0"
  then show "studentT_cdf erf nu t = None" by (simp add: studentT_cdf_def)
next
  assume "nu \<le> 0"
  then show "student_t_cdf erf nu t = Inl Undefined_degree_of_freedom"
    by (simp add: student_t_cdf_def)
next
  assume a: "1 \<le> nu \<and> (\<forall>x. - 1 \<le> erf x \<and> erf x \<le> 1)"
  then have db: "student_t_cdf erf nu t = Inr (studentT_cdf erf nu t)"
    by (simp add: student_t_cdf_def)
  consider "nu \<ge> 1000000" | "200 \<le> nu" "nu < 1000000" | "nu < 200" by linarith
  then have "\<exists>p. studentT_cdf erf nu t = Some p \<and> 0 \<le> p \<and> p \<le> 1"
  proof cases
    case 1
    with a normal_cdf_range [of erf t] show ?thesis by (simp add: studentT_cdf_def)
  next
    case 2
    with a normal_cdf_range [of erf] show ?thesis
      by (simp add: studentT_cdf_def studentT_cdf_approx_def Let_def)
  next
    case 3
    with a show ?thesis by (simp add: studentT_cdf_series_range)
  qed
  with db show "\<exists>p. studentT_cdf erf nu t = Some p \<and> student_t_cdf erf nu t = Inr (Some p) \<and>
           0 \<le> p \<and> p \<le> 1" by auto
qed

theorem studentT_cdf_range_witness:
  "(0::int) \<le> 0 \<and> studentT_cdf tanh 0 1 = None \<and>
   student_t_cdf tanh 0 1 = Inl Undefined_degree_of_freedom \<and>
   (1::int) \<le> 1 \<and> (\<forall>x::real. - 1 \<le> tanh x \<and> tanh x \<le> 1) \<and>
   studentT_cdf tanh 1 1 = Some (3 / 4) \<and> student_t_cdf tanh 1 1 = Inr (Some (3 / 4)) \<and>
   (\<exists>p. studentT_cdf tanh 5 1 = Some p \<and> 0 \<le> p \<and> p \<le> 1) \<and>
   (\<exists>p. studentT_cdf tanh 4 1 = Some p \<and> 0 \<le> p \<and> p \<le> 1) \<and>
   (\<exists>p. studentT_cdf tanh 250 1 = Some p \<and> 0 \<le> p \<and> p \<le> 1) \<and>
   (\<exists>p. studentT_cdf tanh 2000000 1 = Some p \<and> 0 \<le> p \<and> p \<le> 1)"
proof -
  have v: "studentT_cdf tanh 1 1 = Some (3 / 4)"
    by (simp add: studentT_cdf_def arctan_one)
  have r: "\<forall>x::real. - 1 \<le> tanh x \<and> tanh x \<le> 1"
    using tanh_real_gt_neg1 tanh_real_lt_1 by (auto intro: less_imp_le)
  have z: "studentT_cdf tanh 0 1 = None \<and>
      student_t_cdf tanh 0 1 = Inl Undefined_degree_of_freedom"
    using studentT_cdf_range [of 0 tanh 1] by simp
  have o: "student_t_cdf tanh 1 1 = Inr (Some (3 / 4))"
    using studentT_cdf_range [of 1 tanh 1] r v by auto
  have a: "\<exists>p. studentT_cdf tanh 5 1 = Some p \<and> 0 \<le> p \<and> p \<le> 1"
    using studentT_cdf_range [of 5 tanh 1] r by auto
  have b: "\<exists>p. studentT_cdf tanh 4 1 = Some p \<and> 0 \<le> p \<and> p \<le> 1"
    using studentT_cdf_range [of 4 tanh 1] r by auto
  have c: "\<exists>p. studentT_cdf tanh 250 1 = Some p \<and> 0 \<le> p \<and> p \<le> 1"
    using studentT_cdf_range [of 250 tanh 1] r by auto
  have d: "\<exists>p. studentT_cdf tanh 2000000 1 = Some p \<and> 0 \<le> p \<and> p \<le> 1"
    using studentT_cdf_range [of 2000000 tanh 1] r by auto
  from v r z o a b c d show ?thesis by simp
qed

lemma erf_zero: "\<forall>x. erf (- x) = - erf (x::real) \<Longrightarrow> erf 0 = (0::real)"
proof -
  assume "\<forall>x. erf (- x) = - erf (x::real)"
  then have "erf (- 0) = - erf (0::real)" by blast
  then show ?thesis by simp
qed

lemma normal_cdf_minus:
  assumes "\<forall>x. erf (- x) = - erf x"
  shows "normal_cdf erf (- t) = 1 - normal_cdf erf t"
proof -
  from assms have "erf (- (t / sqrt 2)) = - erf (t / sqrt 2)" by blast
  then show ?thesis by (simp add: normal_cdf_def)
qed

lemma studentT_cdf_approx_minus:
  assumes "\<forall>x. erf (- x) = - erf x"
  shows "studentT_cdf_approx erf nu (- t) = 1 - studentT_cdf_approx erf nu t"
proof -
  consider "t < 0" | "t = 0" | "t > 0" by linarith
  then show ?thesis
  proof cases
    case 1
    then show ?thesis
      using normal_cdf_minus [OF assms] by (simp add: studentT_cdf_approx_def Let_def)
  next
    case 2
    then show ?thesis
      using erf_zero [OF assms] by (simp add: studentT_cdf_approx_def Let_def normal_cdf_def)
  next
    case 3
    then show ?thesis
      using normal_cdf_minus [OF assms] by (simp add: studentT_cdf_approx_def Let_def)
  qed
qed

lemma studentT_cdf_series_minus:
  assumes "1 \<le> nu" "nu < 200"
  shows "\<exists>p. studentT_cdf erf nu t = Some p \<and> studentT_cdf erf nu (- t) = Some (1 - p)"
proof -
  from studentT_cdf_series [OF assms, of t erf] obtain A0 where
    z0: "t = 0 \<longrightarrow> A0 = 0" and
    e1: "studentT_cdf erf nu t =
       Some (if t < 0 then 0.5 * (1 - (if A0 > 1 then 1 else if A0 < 0 then 0 else A0))
             else 1 - 0.5 * (1 - (if A0 > 1 then 1 else if A0 < 0 then 0 else A0)))" and
    e2: "studentT_cdf erf nu (- t) =
       Some (if - t < 0 then 0.5 * (1 - (if A0 > 1 then 1 else if A0 < 0 then 0 else A0))
             else 1 - 0.5 * (1 - (if A0 > 1 then 1 else if A0 < 0 then 0 else A0)))"
    by blast
  define C where "C = (if A0 > 1 then 1 else if A0 < 0 then 0 else A0)"
  consider "t < 0" | "t = 0" | "t > 0" by linarith
  then show ?thesis
  proof cases
    case 1
    then have "\<not> - t < 0" by simp
    with 1 e1 e2 have "studentT_cdf erf nu t = Some (0.5 * (1 - C))"
      "studentT_cdf erf nu (- t) = Some (1 - 0.5 * (1 - C))"
      by (simp_all add: C_def)
    then show ?thesis by (intro exI [of _ "0.5 * (1 - C)"]) simp
  next
    case 2
    with z0 have "C = 0" by (simp add: C_def)
    with 2 e1 have "studentT_cdf erf nu t = Some (1 / 2)" "studentT_cdf erf nu (- t) = Some (1 / 2)"
      by (simp_all add: C_def)
    then show ?thesis by (intro exI [of _ "1 / 2"]) simp
  next
    case 3
    then have "\<not> t < 0" "- t < 0" by simp_all
    with e1 e2 have "studentT_cdf erf nu t = Some (1 - 0.5 * (1 - C))"
      "studentT_cdf erf nu (- t) = Some (0.5 * (1 - C))"
      by (simp_all add: C_def)
    then show ?thesis by (intro exI [of _ "1 - 0.5 * (1 - C)"]) simp
  qed
qed

text \<open>
  C9. Over the reals, for every \<open>nu \<ge> 1\<close> and every real \<open>t\<close>,
  \<open>studentT_cdf nu (- t) = 1 - studentT_cdf nu t\<close>. In the series regime \<open>A\<close> depends on
  \<open>t\<close> through \<open>\<bar>t\<bar>\<close> and \<open>t * t\<close> only and the sign of \<open>t\<close> chooses between
  \<open>0.5 * (1 - A)\<close> and \<open>1 - 0.5 * (1 - A)\<close>; in the two other regimes the normal
  distribution function at the negated argument is the complement, the error function
  being odd.
\<close>

theorem studentT_cdf_symmetry:
  assumes "1 \<le> nu" and "\<forall>x. erf (- x) = - erf x"
  shows "\<exists>p. studentT_cdf erf nu t = Some p \<and> studentT_cdf erf nu (- t) = Some (1 - p)"
proof -
  consider "nu \<ge> 1000000" | "200 \<le> nu" "nu < 1000000" | "nu < 200" by linarith
  then show ?thesis
  proof cases
    case 1
    with assms(1) normal_cdf_minus [OF assms(2)] show ?thesis by (simp add: studentT_cdf_def)
  next
    case 2
    with assms(1) studentT_cdf_approx_minus [OF assms(2)] show ?thesis
      by (simp add: studentT_cdf_def)
  next
    case 3
    with assms(1) show ?thesis by (rule studentT_cdf_series_minus)
  qed
qed

theorem studentT_cdf_symmetry_witness:
  "(1::int) \<le> 1 \<and> (\<forall>x::real. tanh (- x) = - tanh x) \<and>
   studentT_cdf tanh 1 1 = Some (3 / 4) \<and> studentT_cdf tanh 1 (- 1) = Some (1 / 4) \<and>
   (\<exists>p. studentT_cdf tanh 250 2 = Some p \<and> studentT_cdf tanh 250 (- 2) = Some (1 - p))"
proof -
  have h: "\<forall>x::real. tanh (- x) = - tanh x" by simp
  have v: "studentT_cdf tanh 1 1 = Some (3 / 4)"
    by (simp add: studentT_cdf_def arctan_one)
  have one: "(1::int) \<le> 1" and big: "(1::int) \<le> 250" by simp_all
  from studentT_cdf_symmetry [OF one h, of 1] v
  have m: "studentT_cdf tanh 1 (- 1) = Some (1 / 4)" by auto
  from v h m studentT_cdf_symmetry [OF big h, of 2] show ?thesis by simp
qed

end
